theory Spec2Isabelle
  imports Main "HOL-Library.Word"
begin

section \<open>JavaScript strings and numbers\<close>

text \<open>
  A JavaScript string is a sequence of UTF-16 code units, and \<^verbatim>\<open>length\<close>,
  \<^verbatim>\<open>substring\<close>, \<^verbatim>\<open>startsWith\<close> and \<^verbatim>\<open>includes\<close> all count and compare code
  units. The model keeps that unit: a string is a list of 16-bit words.
\<close>

type_synonym unit16 = "16 word"
type_synonym jsstring = "unit16 list"

text \<open>ASCII literals of the source text, as code units.\<close>

definition str :: "string \<Rightarrow> jsstring" where
  "str s = map of_char s"

text \<open>
  The numbers that occur as sizes and limits: what \<^verbatim>\<open>parseInt\<close> can return (an
  integer, \<^verbatim>\<open>NaN\<close>, or an infinity for an over-long digit string), with a string
  length being \<open>Fin (int n)\<close>. Every comparison with \<^verbatim>\<open>NaN\<close> is false.
\<close>

datatype jsnum = NaN | NegInf | Fin int | PosInf

fun num_le :: "jsnum \<Rightarrow> jsnum \<Rightarrow> bool" where
  "num_le NaN _ = False"
| "num_le _ NaN = False"
| "num_le NegInf _ = True"
| "num_le _ PosInf = True"
| "num_le (Fin a) (Fin b) = (a \<le> b)"
| "num_le (Fin a) NegInf = False"
| "num_le PosInf (Fin b) = False"
| "num_le PosInf NegInf = False"

fun num_gt :: "jsnum \<Rightarrow> jsnum \<Rightarrow> bool" where
  "num_gt NaN _ = False"
| "num_gt _ NaN = False"
| "num_gt PosInf PosInf = False"
| "num_gt PosInf _ = True"
| "num_gt _ PosInf = False"
| "num_gt NegInf _ = False"
| "num_gt (Fin a) NegInf = True"
| "num_gt (Fin a) (Fin b) = (a > b)"

text \<open>\<^verbatim>\<open>s.length\<close> as a number.\<close>

definition len :: "jsstring \<Rightarrow> jsnum" where
  "len s = Fin (int (length s))"

text \<open>
  \<^verbatim>\<open>String.prototype.substring(start, end)\<close>: each argument is turned into an
  integer (\<^verbatim>\<open>NaN\<close> becomes 0), clamped to \<open>[0, length]\<close>, and the two are swapped
  when the first is the larger.
\<close>

fun clampIndex :: "nat \<Rightarrow> jsnum \<Rightarrow> nat" where
  "clampIndex n NaN = 0"
| "clampIndex n NegInf = 0"
| "clampIndex n PosInf = n"
| "clampIndex n (Fin i) = (if i < 0 then 0 else min (nat i) n)"

definition substring :: "jsstring \<Rightarrow> jsnum \<Rightarrow> jsnum \<Rightarrow> jsstring" where
  "substring s start end' =
     (let a = clampIndex (length s) start;
          b = clampIndex (length s) end'
      in take (max a b - min a b) (drop (min a b) s))"

text \<open>\<^verbatim>\<open>s.startsWith(p)\<close> and \<^verbatim>\<open>s.includes(p)\<close>, both from position 0.\<close>

definition startsWith :: "jsstring \<Rightarrow> jsstring \<Rightarrow> bool" where
  "startsWith s p = (take (length p) s = p)"

fun js_includes :: "jsstring \<Rightarrow> jsstring \<Rightarrow> bool" where
  "js_includes [] p = (p = [])"
| "js_includes (u # us) p = (startsWith (u # us) p \<or> js_includes us p)"

text \<open>
  \<^verbatim>\<open>String.prototype.trim\<close> strips the ECMAScript white space and line terminator
  code points from both ends; all of them are single code units.
\<close>

definition isWhiteSpace :: "unit16 \<Rightarrow> bool" where
  "isWhiteSpace u =
     ((0x0009 \<le> u \<and> u \<le> 0x000D) \<or> u = 0x0020 \<or> u = 0x00A0 \<or> u = 0x1680
      \<or> (0x2000 \<le> u \<and> u \<le> 0x200A) \<or> u = 0x2028 \<or> u = 0x2029 \<or> u = 0x202F
      \<or> u = 0x205F \<or> u = 0x3000 \<or> u = 0xFEFF)"

definition trim :: "jsstring \<Rightarrow> jsstring" where
  "trim s = rev (dropWhile isWhiteSpace (rev (dropWhile isWhiteSpace s)))"

text \<open>
  \<^verbatim>\<open>String.prototype.toLowerCase\<close> belongs to the runtime, not to the repository.
  On the code units below \<open>0x80\<close> its result is fixed by ECMAScript and independent
  of the context: \<open>A\<close> to \<open>Z\<close> become \<open>a\<close> to \<open>z\<close>, every other ASCII unit stays.
  What the Unicode tables do with the other units (mappings that change the length,
  surrogate pairs, the final sigma that looks at its neighbours) is a parameter: a
  function from the units before, the unit itself and the units after to the units
  it contributes to the result.
\<close>

type_synonym lowering = "jsstring \<Rightarrow> unit16 \<Rightarrow> jsstring \<Rightarrow> jsstring"

definition isAsciiUpper :: "unit16 \<Rightarrow> bool" where
  "isAsciiUpper u = (0x41 \<le> u \<and> u \<le> 0x5A)"

definition lowerAscii :: "unit16 \<Rightarrow> unit16" where
  "lowerAscii u = (if isAsciiUpper u then u + 0x20 else u)"

fun lowerFrom :: "lowering \<Rightarrow> jsstring \<Rightarrow> jsstring \<Rightarrow> jsstring" where
  "lowerFrom uc before [] = []"
| "lowerFrom uc before (u # after) =
     (if u < 0x80 then [lowerAscii u] else uc before u after)
       @ lowerFrom uc (before @ [u]) after"

definition toLowerCase :: "lowering \<Rightarrow> jsstring \<Rightarrow> jsstring" where
  "toLowerCase uc s = lowerFrom uc [] s"

text \<open>A lowering that leaves every unit outside ASCII alone, for concrete runs.\<close>

definition keepNonAscii :: lowering where
  "keepNonAscii before u after = [u]"

section \<open>The size limit (server.js, line 48)\<close>

text \<open>
  The result of \<^verbatim>\<open>parseInt\<close> is a double. A natural number below \<open>2^53\<close> is one;
  a larger one is rounded to 53 significant bits, to the nearest and to the even
  neighbour in a tie, and a result of \<open>2^1024\<close> or more is an infinity, which is
  \<open>None\<close> here.
\<close>

fun bit_length :: "nat \<Rightarrow> nat" where
  "bit_length n = (if n = 0 then 0 else Suc (bit_length (n div 2)))"

definition roundToDouble :: "nat \<Rightarrow> nat option" where
  "roundToDouble v =
     (if v < 2 ^ 53 then Some v
      else
        (let e = bit_length v - 53;
             q = v div 2 ^ e;
             r = v mod 2 ^ e;
             half = 2 ^ (e - 1);
             q' = (if r > half \<or> (r = half \<and> odd q) then q + 1 else q)
         in if q' * 2 ^ e \<ge> 2 ^ 1024 then None else Some (q' * 2 ^ e)))"

text \<open>
  \<^verbatim>\<open>parseInt(text, 10)\<close>: leading white space is skipped, one sign is read, then
  the longest run of decimal digits; no digit gives \<^verbatim>\<open>NaN\<close>. The digits denote
  an integer, and the result is the double nearest to it, with the sign. (For more
  than 20 significant digits ECMAScript lets an implementation read the later
  digits as zeros; the model rounds the exact integer. The theorems about the
  handlers hold for every \<open>jsnum\<close>, whatever the text was.)
\<close>

definition isDigit :: "unit16 \<Rightarrow> bool" where
  "isDigit u = (0x30 \<le> u \<and> u \<le> 0x39)"

definition parseInt10 :: "jsstring \<Rightarrow> jsnum" where
  "parseInt10 s =
     (let t = dropWhile isWhiteSpace s;
          neg = (case t of [] \<Rightarrow> False | u # _ \<Rightarrow> u = 0x2D);
          r = (case t of [] \<Rightarrow> [] | u # us \<Rightarrow> if u = 0x2D \<or> u = 0x2B then us else t);
          ds = takeWhile isDigit r
      in if ds = [] then NaN
         else
           (case roundToDouble (foldl (\<lambda>a d. 10 * a + (unat d - 0x30)) 0 ds) of
              None \<Rightarrow> if neg then NegInf else PosInf
            | Some d \<Rightarrow> Fin ((if neg then - 1 else 1) * int d)))"

text \<open>
  \<^verbatim>\<open>parseInt(process.env.MAX_CONTENT_SIZE || '5242880', 10)\<close>; the argument is the
  environment variable, \<open>None\<close> when it is not set. An empty string is falsy.
\<close>

definition MAX_FULL_CONTENT_SIZE :: "jsstring option \<Rightarrow> jsnum" where
  "MAX_FULL_CONTENT_SIZE env_MAX_CONTENT_SIZE =
     parseInt10 (case env_MAX_CONTENT_SIZE of
                   None \<Rightarrow> str ''5242880''
                 | Some v \<Rightarrow> if v \<noteq> [] then v else str ''5242880'')"

section \<open>Values that arrive from outside\<close>

text \<open>
  A parsed JSON value: what \<^verbatim>\<open>response.data\<close>, \<^verbatim>\<open>req.query\<close> and \<^verbatim>\<open>req.body\<close>
  can hold. Numbers are doubles, which are not modelled: their type is the
  parameter \<open>'n\<close>. An object is its list of properties, the first entry of a key
  being the property. \<^verbatim>\<open>undefined\<close> is not a JSON value: reading a property gives
  an option.
\<close>

datatype 'n json =
    JNull
  | JBool bool
  | JNum 'n
  | JStr jsstring
  | JArr "'n json list"
  | JObj "(jsstring \<times> 'n json) list"

text \<open>
  What the handlers take from the runtime: the lowering of non-ASCII units, which
  numbers are falsy (the zeros and \<^verbatim>\<open>NaN\<close>), \<^verbatim>\<open>JSON.stringify\<close>, \<^verbatim>\<open>String\<close> on a
  value that is neither a string nor \<^verbatim>\<open>null\<close>, whether \<^verbatim>\<open>new URL(v)\<close> succeeds,
  and the text of a number inside a template literal.
\<close>

record 'n runtime =
  lowerNonAscii :: lowering
  numFalsy :: "'n \<Rightarrow> bool"
  JSON_stringify :: "'n json \<Rightarrow> jsstring"
  String_of :: "'n json \<Rightarrow> jsstring"
  URL_parses :: "'n json \<Rightarrow> bool"
  showNum :: "jsnum \<Rightarrow> jsstring"

fun truthy :: "('n \<Rightarrow> bool) \<Rightarrow> 'n json \<Rightarrow> bool" where
  "truthy nf JNull = False"
| "truthy nf (JBool b) = b"
| "truthy nf (JNum n) = (\<not> nf n)"
| "truthy nf (JStr s) = (s \<noteq> [])"
| "truthy nf (JArr vs) = True"
| "truthy nf (JObj kvs) = True"

fun truthyO :: "('n \<Rightarrow> bool) \<Rightarrow> 'n json option \<Rightarrow> bool" where
  "truthyO nf None = False"
| "truthyO nf (Some v) = truthy nf v"

text \<open>
  \<^verbatim>\<open>v.k\<close> for one of the keys the program reads (\<^verbatim>\<open>body\<close>, \<^verbatim>\<open>data\<close>,
  \<^verbatim>\<open>content\<close>, \<^verbatim>\<open>url\<close>, \<^verbatim>\<open>mode\<close>, \<^verbatim>\<open>full\<close>) on a value that is not
  \<^verbatim>\<open>null\<close>: only an object can have it.
\<close>

fun get_prop :: "'n json \<Rightarrow> jsstring \<Rightarrow> 'n json option" where
  "get_prop (JObj kvs) k = map_of kvs k"
| "get_prop _ k = None"

section \<open>The diagnostics of \<^verbatim>\<open>/test\<close> (server.js, lines 241 to 265)\<close>

text \<open>
  The \<^verbatim>\<open>result\<close> object of the \<^verbatim>\<open>/test\<close> handler. A property that the handler
  only adds on some paths (\<^verbatim>\<open>contentTruncated\<close>, \<^verbatim>\<open>maxContentSize\<close>,
  \<^verbatim>\<open>message\<close>, \<^verbatim>\<open>error\<close>, \<^verbatim>\<open>errorResponse\<close>) is an option, \<open>None\<close> when the property is absent; \<^verbatim>\<open>status\<close>
  and \<^verbatim>\<open>content\<close> start as \<^verbatim>\<open>null\<close>, which is \<open>None\<close> as well.
\<close>

record diagnostics =
  success :: bool
  status :: "int option"
  contentLength :: nat
  contentPreview :: jsstring
  content :: "jsstring option"
  isXml :: bool
  hasCloudflareChallenge :: bool
  contentTruncated :: "bool option"
  maxContentSize :: "jsnum option"
  message :: "jsstring option"
  error :: "jsstring option"
  errorResponse :: "jsstring option"

definition initial_result :: diagnostics where
  "initial_result =
     \<lparr> success = False, status = None, contentLength = 0, contentPreview = [],
       content = None, isXml = False, hasCloudflareChallenge = False,
       contentTruncated = None, maxContentSize = None, message = None,
       error = None, errorResponse = None \<rparr>"

text \<open>
  The text of the advisory, \<^verbatim>\<open>`Content truncated at ${MAX} bytes. Use /fetch for
  raw content (up to ${MAX} bytes).`\<close>; the conversion of the number to text is the
  runtime's and is passed in.
\<close>

definition truncated_message :: "(jsnum \<Rightarrow> jsstring) \<Rightarrow> jsnum \<Rightarrow> jsstring" where
  "truncated_message shw mx =
     str ''Content truncated at '' @ shw mx
       @ str '' bytes. Use /fetch for raw content (up to '' @ shw mx @ str '' bytes).''"

text \<open>
  The body of the inner \<^verbatim>\<open>try\<close> after \<^verbatim>\<open>fetchContent\<close> has returned
  \<^verbatim>\<open>{content, status}\<close>: lines 242 to 265, assignment by assignment; \<open>mx\<close> is
  the constant \<^verbatim>\<open>MAX_FULL_CONTENT_SIZE\<close> as computed when the server started.
\<close>

definition classify ::
  "'n runtime \<Rightarrow> jsnum \<Rightarrow> bool \<Rightarrow> jsstring \<Rightarrow> int \<Rightarrow> diagnostics" where
  "classify rt mx fullContent body st =
     (let lower = toLowerCase (lowerNonAscii rt) body;
          r = initial_result
                \<lparr> status := Some st,
                  contentLength := length body,
                  contentPreview := substring body (Fin 0) (Fin 500),
                  success := (st \<ge> 200 \<and> st < 300),
                  isXml := (startsWith lower (str ''<?xml'') \<or> startsWith lower (str ''<feed'')
                            \<or> startsWith lower (str ''<rss'')),
                  hasCloudflareChallenge :=
                    (js_includes lower (str ''cloudflare'')
                     \<or> js_includes lower (str ''just a moment'')
                     \<or> js_includes lower (str ''cf-browser-verification'')) \<rparr>
      in if fullContent then
           (if num_le (len body) mx then r \<lparr> content := Some body \<rparr>
            else r \<lparr> contentTruncated := Some True,
                     content := Some (substring body (Fin 0) mx),
                     maxContentSize := Some mx,
                     message := Some (truncated_message (showNum rt) mx) \<rparr>)
         else r)"


section \<open>\<^verbatim>\<open>fetchContent\<close> (server.js, lines 51 to 112)\<close>

text \<open>
  The single outbound call is the only thing the function does not decide itself.
  Its result is an input of the model: the promise of \<^verbatim>\<open>axios\<close> either resolves
  with a status and the data, or rejects with an error that has a message and
  possibly a response. With \<^verbatim>\<open>validateStatus: () => true\<close> no status rejects.
\<close>

datatype 'n failure = Failure (message_of: jsstring) (response_of: "(int \<times> 'n json) option")

datatype 'n outcome = Resolves int "'n json" | Rejects "'n failure"

text \<open>
  Lines 72 to 80: a body that is not a string and is a non-null object (an array
  is one) is replaced by the first of its properties \<^verbatim>\<open>body\<close>, \<^verbatim>\<open>data\<close>,
  \<^verbatim>\<open>content\<close> whose value is truthy, and by its \<^verbatim>\<open>JSON.stringify\<close> when none is.
\<close>

definition truthy_prop :: "('n \<Rightarrow> bool) \<Rightarrow> 'n json \<Rightarrow> jsstring \<Rightarrow> 'n json option" where
  "truthy_prop nf v k =
     (case get_prop v k of None \<Rightarrow> None | Some w \<Rightarrow> if truthy nf w then Some w else None)"

definition is_object :: "'n json \<Rightarrow> bool" where
  "is_object v = (case v of JArr _ \<Rightarrow> True | JObj _ \<Rightarrow> True | _ \<Rightarrow> False)"

definition unwrap :: "'n runtime \<Rightarrow> 'n json \<Rightarrow> 'n json" where
  "unwrap rt body =
     (if is_object body then
        (case truthy_prop (numFalsy rt) body (str ''body'') of
           Some v \<Rightarrow> v
         | None \<Rightarrow>
            (case truthy_prop (numFalsy rt) body (str ''data'') of
               Some v \<Rightarrow> v
             | None \<Rightarrow>
                (case truthy_prop (numFalsy rt) body (str ''content'') of
                   Some v \<Rightarrow> v
                 | None \<Rightarrow> JStr (JSON_stringify rt body))))
      else body)"

text \<open>\<^verbatim>\<open>String(body ?? '')\<close>, line 81.\<close>

definition String_js :: "'n runtime \<Rightarrow> 'n json \<Rightarrow> jsstring" where
  "String_js rt v = (case v of JStr s \<Rightarrow> s | JNull \<Rightarrow> [] | _ \<Rightarrow> String_of rt v)"

text \<open>
  The process environment variable \<^verbatim>\<open>NODE_TLS_REJECT_UNAUTHORIZED\<close>: \<open>None\<close> when
  it is not set. \<^verbatim>\<open>fetchContent\<close> takes it before the call and returns it as it
  is when the function returns or throws; a throw is \<open>Inl\<close>. The arguments are the
  runtime, \<^verbatim>\<open>UNLOCKER_CONFIG.apiKey\<close>, the mode, the result of the outbound call and
  the variable. In native mode line 86 reads the variable, line 87 sets it to
  \<open>"0"\<close>, and lines 102 to 106, which come after the \<^verbatim>\<open>await\<close> and stand in no
  \<^verbatim>\<open>finally\<close>, put the value back or delete the variable. The construction of
  the proxy agent before line 86 is not modelled.
\<close>

type_synonym tls_flag = "jsstring option"

definition fetchContent ::
  "'n runtime \<Rightarrow> jsstring \<Rightarrow> 'n json \<Rightarrow> 'n outcome \<Rightarrow> tls_flag
     \<Rightarrow> tls_flag \<times> ('n failure + jsstring \<times> int)" where
  "fetchContent rt apiKey mode net env =
     (if mode = JStr (str ''api'') then
        (if apiKey = [] then
           (env, Inl (Failure (str ''BRIGHT_DATA_API_KEY not configured'') None))
         else
           (case net of
              Rejects e \<Rightarrow> (env, Inl e)
            | Resolves st data \<Rightarrow> (env, Inr (String_js rt (unwrap rt data), st))))
      else
        (let originalReject = env;
             env1 = Some (str ''0'')
         in case net of
              Rejects e \<Rightarrow> (env1, Inl e)
            | Resolves st data \<Rightarrow>
                (let env2 = (case originalReject of Some v \<Rightarrow> Some v | None \<Rightarrow> None)
                 in (env2, Inr (case data of JStr s \<Rightarrow> s | _ \<Rightarrow> JSON_stringify rt data, st)))))"

text \<open>
  \<^verbatim>\<open>testUnlockerNative\<close> of the command line script (test-brightdata-proxy.js,
  lines 96 to 157), reduced to what it does to the variable; its console output
  is left out. The restore is the first statement after the call inside the
  \<^verbatim>\<open>try\<close>, and the \<^verbatim>\<open>catch\<close> clause does not touch the variable.
\<close>

definition testUnlockerNative_env :: "'n outcome \<Rightarrow> tls_flag \<Rightarrow> tls_flag" where
  "testUnlockerNative_env net env =
     (let originalReject = env;
          env1 = Some (str ''0'')
      in case net of
           Resolves st data \<Rightarrow> (case originalReject of Some v \<Rightarrow> Some v | None \<Rightarrow> None)
         | Rejects e \<Rightarrow> env1)"

section \<open>The \<^verbatim>\<open>/fetch\<close> handler (server.js, lines 115 to 174)\<close>

text \<open>
  A request: \<^verbatim>\<open>req.query\<close> is always an object; \<^verbatim>\<open>req.body\<close> is \<open>None\<close> when no
  body parser has set it.
\<close>

record 'n request =
  req_query :: "'n json"
  req_body :: "'n json option"

text \<open>\<^verbatim>\<open>a || b\<close> on values that may be \<^verbatim>\<open>undefined\<close>.\<close>

definition js_or :: "('n \<Rightarrow> bool) \<Rightarrow> 'n json option \<Rightarrow> 'n json option \<Rightarrow> 'n json option" where
  "js_or nf a b = (if truthyO nf a then a else b)"

text \<open>\<^verbatim>\<open>req.body?.k\<close>: \<^verbatim>\<open>undefined\<close> when the body is \<^verbatim>\<open>undefined\<close> or \<^verbatim>\<open>null\<close>.\<close>

definition body_prop_opt :: "'n request \<Rightarrow> jsstring \<Rightarrow> 'n json option" where
  "body_prop_opt req k =
     (case req_body req of None \<Rightarrow> None | Some JNull \<Rightarrow> None | Some b \<Rightarrow> get_prop b k)"

datatype content_type = XML | HTML | JSON | PlainText

text \<open>
  The responses of the handler, one constructor for each \<^verbatim>\<open>res.status(...)\<close> of
  the source. \<open>Fetch_TooLarge\<close> is the JSON object with \<^verbatim>\<open>error\<close>,
  \<^verbatim>\<open>contentLength\<close>, \<^verbatim>\<open>maxAllowed\<close> and \<^verbatim>\<open>message\<close>; \<open>Fetch_Upstream\<close> and
  \<open>Fetch_Raw\<close> send the text itself. The two informational headers of the last
  one (\<^verbatim>\<open>X-Content-Length\<close>, \<^verbatim>\<open>X-Source-URL\<close>) are left out.
\<close>

datatype 'n fetch_response =
    Fetch_MissingUrl
  | Fetch_InvalidUrl "'n json"
  | Fetch_InvalidMode
  | Fetch_Upstream int jsstring
  | Fetch_TooLarge (tl_contentLength: nat) (tl_maxAllowed: jsnum) (tl_message: jsstring)
  | Fetch_Raw content_type jsstring
  | Fetch_Failed jsstring

fun fetch_status :: "'n fetch_response \<Rightarrow> int" where
  "fetch_status Fetch_MissingUrl = 400"
| "fetch_status (Fetch_InvalidUrl u) = 400"
| "fetch_status Fetch_InvalidMode = 400"
| "fetch_status (Fetch_Upstream st c) = st"
| "fetch_status (Fetch_TooLarge n m msg) = 413"
| "fetch_status (Fetch_Raw ct c) = 200"
| "fetch_status (Fetch_Failed msg) = 500"

text \<open>The text that a response sends as it is, if it sends one.\<close>

fun fetch_sent :: "'n fetch_response \<Rightarrow> jsstring option" where
  "fetch_sent (Fetch_Upstream st c) = Some c"
| "fetch_sent (Fetch_Raw ct c) = Some c"
| "fetch_sent _ = None"

definition too_large_message :: "(jsnum \<Rightarrow> jsstring) \<Rightarrow> jsnum \<Rightarrow> jsstring" where
  "too_large_message shw mx =
     str ''Content exceeds '' @ shw mx
       @ str '' bytes. Use /test?full=true for JSON with truncated content.''"

text \<open>Lines 153 to 162.\<close>

definition detect_content_type :: "lowering \<Rightarrow> jsstring \<Rightarrow> content_type" where
  "detect_content_type uc cont =
     (let lower = trim (toLowerCase uc cont)
      in if startsWith lower (str ''<?xml'') \<or> startsWith lower (str ''<feed'')
            \<or> startsWith lower (str ''<rss'') then XML
         else if startsWith lower (str ''<!doctype'') \<or> startsWith lower (str ''<html'') then HTML
         else if startsWith lower (str ''{'') \<or> startsWith lower (str ''['') then JSON
         else PlainText)"

text \<open>Lines 139 to 166: what the handler answers once \<^verbatim>\<open>fetchContent\<close> has returned.\<close>

definition fetch_respond :: "'n runtime \<Rightarrow> jsnum \<Rightarrow> jsstring \<Rightarrow> int \<Rightarrow> 'n fetch_response" where
  "fetch_respond rt mx cont st =
     (if st \<ge> 400 then Fetch_Upstream st cont
      else if num_gt (len cont) mx then
        Fetch_TooLarge (length cont) mx (too_large_message (showNum rt) mx)
      else Fetch_Raw (detect_content_type (lowerNonAscii rt) cont) cont)"

definition fetch_handler ::
  "'n runtime \<Rightarrow> jsnum \<Rightarrow> jsstring \<Rightarrow> 'n request \<Rightarrow> 'n outcome \<Rightarrow> tls_flag
     \<Rightarrow> tls_flag \<times> 'n fetch_response" where
  "fetch_handler rt mx apiKey req net env =
     (let url = js_or (numFalsy rt) (get_prop (req_query req) (str ''url'')) (body_prop_opt req (str ''url''));
          mode = js_or (numFalsy rt) (get_prop (req_query req) (str ''mode''))
                   (js_or (numFalsy rt) (body_prop_opt req (str ''mode'')) (Some (JStr (str ''api''))))
      in case url of
           None \<Rightarrow> (env, Fetch_MissingUrl)
         | Some u \<Rightarrow>
            if \<not> truthy (numFalsy rt) u then (env, Fetch_MissingUrl)
            else if \<not> URL_parses rt u then (env, Fetch_InvalidUrl u)
            else if mode \<noteq> Some (JStr (str ''api'')) \<and> mode \<noteq> Some (JStr (str ''native''))
              then (env, Fetch_InvalidMode)
            else
              (case mode of
                 None \<Rightarrow> (env, Fetch_InvalidMode)
               | Some m \<Rightarrow>
                  (case fetchContent rt apiKey m net env of
                     (env', Inl e) \<Rightarrow> (env', Fetch_Failed (message_of e))
                   | (env', Inr (cont, st)) \<Rightarrow> (env', fetch_respond rt mx cont st))))"


section \<open>The \<^verbatim>\<open>/test\<close> handler (server.js, lines 177 to 297)\<close>

text \<open>
  \<^verbatim>\<open>req.body.k\<close>, without the \<^verbatim>\<open>?.\<close> of the other handler: reading a property
  of \<^verbatim>\<open>undefined\<close> or \<^verbatim>\<open>null\<close> throws a \<^verbatim>\<open>TypeError\<close>, which is \<open>Inl\<close> with the
  name of the property.
\<close>

definition body_prop :: "'n request \<Rightarrow> jsstring \<Rightarrow> jsstring + 'n json option" where
  "body_prop req k =
     (case req_body req of
        None \<Rightarrow> Inl k
      | Some JNull \<Rightarrow> Inl k
      | Some b \<Rightarrow> Inr (get_prop b k))"

text \<open>
  \<^verbatim>\<open>req.query.k || req.body.k || dflt\<close>, lines 180 and 181. The body is only read
  when the query value is falsy.
\<close>

definition query_body_or :: "'n runtime \<Rightarrow> 'n request \<Rightarrow> jsstring \<Rightarrow> jsstring \<Rightarrow> jsstring + 'n json" where
  "query_body_or rt req k dflt =
     (let from_body =
            (case body_prop req k of
               Inl thrown \<Rightarrow> Inl thrown
             | Inr None \<Rightarrow> Inr (JStr dflt)
             | Inr (Some w) \<Rightarrow> if truthy (numFalsy rt) w then Inr w else Inr (JStr dflt))
      in case get_prop (req_query req) k of
           None \<Rightarrow> from_body
         | Some v \<Rightarrow> if truthy (numFalsy rt) v then Inr v else from_body)"

definition default_url :: jsstring where
  "default_url = str ''https://forum.opencart.com/feed/forum/2''"

text \<open>Line 182.\<close>

definition test_full :: "'n request \<Rightarrow> jsstring + bool" where
  "test_full req =
     (let qf = get_prop (req_query req) (str ''full'')
      in if qf = Some (JStr (str ''true'')) \<or> qf = Some (JStr (str ''1'')) then Inr True
         else (case body_prop req (str ''full'') of
                 Inl thrown \<Rightarrow> Inl thrown
               | Inr bf \<Rightarrow> Inr (bf = Some (JBool True) \<or> bf = Some (JStr (str ''true'')))))"

text \<open>
  The responses. \<open>Test_Result\<close> is line 284: the status code, then \<^verbatim>\<open>mode\<close>,
  \<^verbatim>\<open>url\<close> and the properties of \<^verbatim>\<open>result\<close>. The handler replaces the console
  functions while it runs, but \<^verbatim>\<open>fetchContent\<close> prints nothing, so \<^verbatim>\<open>logs\<close> is
  always the empty list and is left out. \<open>Test_InternalError\<close> is the outer
  \<^verbatim>\<open>catch\<close>, with the property whose read threw.
\<close>

datatype 'n test_response =
    Test_MissingUrl
  | Test_InvalidUrl "'n json"
  | Test_InvalidMode "'n json"
  | Test_Result int "'n json" "'n json" diagnostics
  | Test_InternalError jsstring

text \<open>The inner \<^verbatim>\<open>catch\<close>, lines 267 to 274.\<close>

definition on_error :: "'n runtime \<Rightarrow> 'n failure \<Rightarrow> diagnostics" where
  "on_error rt e =
     (let r = initial_result \<lparr> error := Some (message_of e) \<rparr>
      in case response_of e of
           None \<Rightarrow> r
         | Some (st, data) \<Rightarrow>
             r \<lparr> status := Some st,
                 errorResponse :=
                   Some (substring (case data of JStr s \<Rightarrow> s | _ \<Rightarrow> JSON_stringify rt data)
                           (Fin 0) (Fin 500)) \<rparr>)"

text \<open>Line 283: \<^verbatim>\<open>result.success ? 200 : (result.status || 500)\<close>.\<close>

definition statusCode :: "diagnostics \<Rightarrow> int" where
  "statusCode r =
     (if success r then 200
      else case status r of None \<Rightarrow> 500 | Some st \<Rightarrow> if st = 0 then 500 else st)"

definition test_handler ::
  "'n runtime \<Rightarrow> jsnum \<Rightarrow> jsstring \<Rightarrow> 'n request \<Rightarrow> 'n outcome \<Rightarrow> tls_flag
     \<Rightarrow> tls_flag \<times> 'n test_response" where
  "test_handler rt mx apiKey req net env =
     (case query_body_or rt req (str ''url'') default_url of
        Inl thrown \<Rightarrow> (env, Test_InternalError thrown)
      | Inr url \<Rightarrow>
         (case query_body_or rt req (str ''mode'') (str ''api'') of
            Inl thrown \<Rightarrow> (env, Test_InternalError thrown)
          | Inr mode \<Rightarrow>
             (case test_full req of
                Inl thrown \<Rightarrow> (env, Test_InternalError thrown)
              | Inr fullContent \<Rightarrow>
                 if \<not> truthy (numFalsy rt) url then (env, Test_MissingUrl)
                 else if \<not> URL_parses rt url then (env, Test_InvalidUrl url)
                 else if mode \<noteq> JStr (str ''api'') \<and> mode \<noteq> JStr (str ''native'')
                   then (env, Test_InvalidMode mode)
                 else
                   (case fetchContent rt apiKey mode net env of
                      (env', Inr (cont, st)) \<Rightarrow>
                        (let r = classify rt mx fullContent cont st
                         in (env', Test_Result (statusCode r) mode url r))
                    | (env', Inl e) \<Rightarrow>
                        (let r = on_error rt e
                         in (env', Test_Result (statusCode r) mode url r))))))"

section \<open>The unwrapping as the specification words it\<close>

text \<open>
  The specification describes lines 72 to 80 as a search through the three
  properties in a fixed order. That reading, with the test a property has to pass
  as a parameter: \<open>\<lambda>v. True\<close> is ``the first property that is present''.
\<close>

definition first_usable :: "('n json \<Rightarrow> bool) \<Rightarrow> 'n runtime \<Rightarrow> 'n json \<Rightarrow> 'n json" where
  "first_usable usable rt d =
     (case List.map_filter
             (\<lambda>k. case get_prop d k of None \<Rightarrow> None | Some v \<Rightarrow> if usable v then Some v else None)
             [str ''body'', str ''data'', str ''content''] of
        v # _ \<Rightarrow> v
      | [] \<Rightarrow> JStr (JSON_stringify rt d))"

section \<open>A concrete runtime\<close>

text \<open>
  The text of a number inside a template literal, for the numbers that are
  integers of a magnitude below \<open>10^21\<close>, \<^verbatim>\<open>NaN\<close> or an infinity: the decimal
  numeral. (A larger double is printed with an exponent, which is not modelled;
  only the concrete runtime below uses this function.)
\<close>

fun decimal :: "nat \<Rightarrow> jsstring" where
  "decimal n =
     (if n < 10 then [0x30 + of_nat n] else decimal (n div 10) @ [0x30 + of_nat (n mod 10)])"

definition showInteger :: "jsnum \<Rightarrow> jsstring" where
  "showInteger n =
     (case n of
        NaN \<Rightarrow> str ''NaN''
      | PosInf \<Rightarrow> str ''Infinity''
      | NegInf \<Rightarrow> str ''-Infinity''
      | Fin i \<Rightarrow> if i < 0 then str ''-'' @ decimal (nat (- i)) else decimal (nat i))"

text \<open>
  For running the model on concrete ASCII inputs: units outside ASCII are kept,
  numbers inside JSON values are of a one-element type, and the conversions of
  values return fixed texts. The universal theorems below do not use it.
\<close>

definition ascii_runtime :: "unit runtime" where
  "ascii_runtime =
     \<lparr> lowerNonAscii = keepNonAscii,
       numFalsy = (\<lambda>n. False),
       JSON_stringify = (\<lambda>v. str ''{}''),
       String_of = (\<lambda>v. str ''[object Object]''),
       URL_parses = (\<lambda>v. case v of JStr s \<Rightarrow> startsWith s (str ''http'') | _ \<Rightarrow> False),
       showNum = showInteger \<rparr>"

section \<open>The verdict line of the command line script\<close>

text \<open>
  Both \<^verbatim>\<open>testUnlockerNative\<close> (test-brightdata-proxy.js, lines 134 to 148) and
  \<^verbatim>\<open>testUnlockerAPI\<close> (lines 213 to 226) end with the same chain: the feed
  prefixes are tested first, and the challenge texts are searched in the
  \<^verbatim>\<open>else if\<close>. At most one of the two lines is printed.
\<close>

datatype cli_line = Looks_like_feed | Challenge_present

definition cli_verdict :: "lowering \<Rightarrow> jsstring \<Rightarrow> cli_line option" where
  "cli_verdict uc body =
     (let lower = toLowerCase uc body
      in if startsWith lower (str ''<?xml'') \<or> startsWith lower (str ''<feed'')
            \<or> startsWith lower (str ''<rss'') then Some Looks_like_feed
         else if js_includes lower (str ''cloudflare'')
                 \<or> js_includes lower (str ''just a moment'')
                 \<or> js_includes lower (str ''cf-browser-verification'') then Some Challenge_present
         else None)"

section \<open>Inputs of the scenarios\<close>

text \<open>The feed of the specification's scenario, and the same feed after one space.\<close>

definition scenario_body :: jsstring where
  "scenario_body = str ''<?xml version=\"1.0\"?><rss></rss>''"

definition padded_body :: jsstring where
  "padded_body = str '' <?xml version=\"1.0\"?><rss></rss>''"

text \<open>A feed that mentions the challenge text.\<close>

definition feed_naming_cloudflare :: jsstring where
  "feed_naming_cloudflare = str ''<rss>'' @ str ''CloudFlare'' @ str ''</rss>''"

text \<open>
  A relay envelope \<^verbatim>\<open>{"body": "", "data": "x"}\<close>: the property \<^verbatim>\<open>body\<close> is
  present and empty.
\<close>

definition envelope_empty_body :: "unit json" where
  "envelope_empty_body = JObj [(str ''body'', JStr []), (str ''data'', JStr (str ''x''))]"

text \<open>A request without parameters whose body a parser has set to \<^verbatim>\<open>{}\<close>.\<close>

definition bare_request :: "unit request" where
  "bare_request = \<lparr> req_query = JObj [], req_body = Some (JObj []) \<rparr>"

section \<open>Strings: helper lemmas\<close>

lemma startsWith_append: "startsWith (p @ r) p"
  by (simp add: startsWith_def)

lemma js_includes_append: "js_includes (a @ p @ b) p"
proof (induction a)
  case Nil
  show ?case
  proof (cases "p @ b")
    case Nil
    then show ?thesis by simp
  next
    case (Cons u us)
    have "startsWith (p @ b) p" by (rule startsWith_append)
    with Cons show ?thesis by simp
  qed
next
  case (Cons u a)
  then show ?case by simp
qed

lemma startsWith_Cons: "startsWith s (c # p) \<Longrightarrow> c \<in> set s"
  by (cases s) (auto simp: startsWith_def)

lemma js_includes_first_unit: "js_includes s (c # p) \<Longrightarrow> c \<in> set s"
proof (induction s)
  case Nil
  then show ?case by simp
next
  case (Cons u us)
  then show ?case using startsWith_Cons [of "u # us" c p] by auto
qed

lemma substring_0_Fin: "substring s (Fin 0) (Fin m) = take (nat m) s"
  by (simp add: substring_def min_def max_def)

lemma num_le_not_gt: "num_le a b \<Longrightarrow> \<not> num_gt a b"
  by (cases a; cases b) auto

lemma num_gt_not_le: "num_gt a b \<Longrightarrow> \<not> num_le a b"
  by (cases a; cases b) auto

text \<open>
  A limit that a length exceeds is an integer or the negative infinity; the cut
  keeps that many units, none when the limit is negative.
\<close>

lemma substring_0_exceeded:
  "num_gt (len s) mx \<Longrightarrow>
   substring s (Fin 0) mx = take (case mx of Fin k \<Rightarrow> nat k | _ \<Rightarrow> 0) s"
  by (cases mx) (auto simp: substring_def len_def min_def max_def)

lemma truncated_message_nonempty: "truncated_message shw mx \<noteq> []"
  by (simp add: truncated_message_def str_def)

text \<open>An upper-case ASCII letter and its lower-case form are both below \<open>0x80\<close>.\<close>

lemma lowerAscii_below:
  assumes "lowerAscii u < 0x80"
  shows "u < 0x80"
proof (cases "isAsciiUpper u")
  case True
  then have "u \<le> 0x5A" by (simp add: isAsciiUpper_def)
  moreover have "(0x5A :: unit16) < 0x80" by simp
  ultimately show ?thesis by (rule order_le_less_trans)
next
  case False
  with assms show ?thesis by (simp add: lowerAscii_def)
qed

text \<open>
  Lower-casing works through an ASCII stretch unit by unit, whatever stands before
  it, and whatever the runtime does with the rest.
\<close>

lemma lowerFrom_ascii:
  "\<forall>u \<in> set mid. u < 0x80 \<Longrightarrow>
   lowerFrom uc bf (mid @ post) = map lowerAscii mid @ lowerFrom uc (bf @ mid) post"
  by (induction mid arbitrary: bf) auto

lemma toLowerCase_ascii:
  assumes "\<forall>u \<in> set s. u < 0x80"
  shows "toLowerCase uc s = map lowerAscii s"
  using lowerFrom_ascii [OF assms, of uc "[]" "[]"] by (simp add: toLowerCase_def)

lemma lowerFrom_append:
  "\<exists>front. lowerFrom uc bf (pre @ rest) = front @ lowerFrom uc (bf @ pre) rest"
proof (induction pre arbitrary: bf)
  case Nil
  show ?case by simp
next
  case (Cons u pre)
  from Cons [of "bf @ [u]"] obtain front
    where "lowerFrom uc (bf @ [u]) (pre @ rest) = front @ lowerFrom uc ((bf @ [u]) @ pre) rest"
    by blast
  then show ?case by simp
qed

lemma toLowerCase_keeps_ascii_match:
  assumes "\<forall>v \<in> set needle. v < 0x80" and "map lowerAscii mid = needle"
  shows "js_includes (toLowerCase uc (pre @ mid @ post)) needle"
proof -
  have "\<forall>u \<in> set mid. u < 0x80"
  proof
    fix u assume "u \<in> set mid"
    then have "lowerAscii u \<in> set needle" using assms(2) by auto
    with assms(1) have "lowerAscii u < 0x80" by blast
    then show "u < 0x80" by (rule lowerAscii_below)
  qed
  then have mid: "lowerFrom uc bf (mid @ post) = needle @ lowerFrom uc (bf @ mid) post" for bf
    using lowerFrom_ascii [of mid uc bf post] assms(2) by simp
  obtain front
    where "lowerFrom uc [] (pre @ mid @ post) = front @ lowerFrom uc ([] @ pre) (mid @ post)"
    using lowerFrom_append [of uc "[]" pre "mid @ post"] by blast
  then have "toLowerCase uc (pre @ mid @ post) = front @ needle @ lowerFrom uc (pre @ mid) post"
    using mid [of pre] by (simp add: toLowerCase_def)
  then show ?thesis by (simp add: js_includes_append)
qed

lemma needles_ascii:
  "\<forall>v \<in> set (str ''cloudflare''). v < 0x80"
  "\<forall>v \<in> set (str ''just a moment''). v < 0x80"
  "\<forall>v \<in> set (str ''cf-browser-verification''). v < 0x80"
  by (simp_all add: str_def)

lemma challenge_scan_matches:
  assumes "map lowerAscii mid = str ''cloudflare'' \<or> map lowerAscii mid = str ''just a moment''
           \<or> map lowerAscii mid = str ''cf-browser-verification''"
  shows "js_includes (toLowerCase uc (pre @ mid @ post)) (str ''cloudflare'')
         \<or> js_includes (toLowerCase uc (pre @ mid @ post)) (str ''just a moment'')
         \<or> js_includes (toLowerCase uc (pre @ mid @ post)) (str ''cf-browser-verification'')"
  using assms toLowerCase_keeps_ascii_match needles_ascii by metis

section \<open>The size limit: helper lemmas\<close>

lemma default_max: "MAX_FULL_CONTENT_SIZE None = Fin 5242880"
  by (simp add: MAX_FULL_CONTENT_SIZE_def parseInt10_def roundToDouble_def str_def
      isWhiteSpace_def isDigit_def Let_def)

section \<open>The diagnostics, field by field\<close>

lemma classify_isXml:
  "isXml (classify rt mx full body st) =
     (startsWith (toLowerCase (lowerNonAscii rt) body) (str ''<?xml'')
      \<or> startsWith (toLowerCase (lowerNonAscii rt) body) (str ''<feed'')
      \<or> startsWith (toLowerCase (lowerNonAscii rt) body) (str ''<rss''))"
  by (simp add: classify_def Let_def)

lemma classify_blocked:
  "hasCloudflareChallenge (classify rt mx full body st) =
     (js_includes (toLowerCase (lowerNonAscii rt) body) (str ''cloudflare'')
      \<or> js_includes (toLowerCase (lowerNonAscii rt) body) (str ''just a moment'')
      \<or> js_includes (toLowerCase (lowerNonAscii rt) body) (str ''cf-browser-verification''))"
  by (simp add: classify_def Let_def)

lemma classify_success: "success (classify rt mx full body st) = (200 \<le> st \<and> st < 300)"
  by (simp add: classify_def Let_def)

lemma classify_contentLength: "contentLength (classify rt mx full body st) = length body"
  by (simp add: classify_def Let_def)

section \<open>The scenario inputs, evaluated\<close>

lemma scenario_units:
  "scenario_body = [60, 63, 120, 109, 108, 32, 118, 101, 114, 115, 105, 111, 110, 61, 34, 49,
     46, 48, 34, 63, 62, 60, 114, 115, 115, 62, 60, 47, 114, 115, 115, 62]"
  by (simp add: scenario_body_def str_def)

lemma scenario_lower: "toLowerCase uc scenario_body = scenario_body"
proof -
  have "\<forall>u \<in> set scenario_body. u < 0x80" by (simp add: scenario_units)
  then have "toLowerCase uc scenario_body = map lowerAscii scenario_body"
    by (rule toLowerCase_ascii)
  also have "\<dots> = scenario_body"
    by (simp add: scenario_units lowerAscii_def isAsciiUpper_def)
  finally show ?thesis .
qed

lemma scenario_starts: "startsWith scenario_body (str ''<?xml'')"
  by (simp add: scenario_units startsWith_def str_def)

text \<open>None of the three challenge texts can occur: the feed has no \<open>c\<close> and no \<open>j\<close>.\<close>

lemma scenario_not_blocked:
  "\<not> js_includes scenario_body (str ''cloudflare'')"
  "\<not> js_includes scenario_body (str ''just a moment'')"
  "\<not> js_includes scenario_body (str ''cf-browser-verification'')"
proof -
  have c: "of_char CHR ''c'' \<notin> set scenario_body"
    and j: "of_char CHR ''j'' \<notin> set scenario_body"
    by (simp_all add: scenario_units)
  show "\<not> js_includes scenario_body (str ''cloudflare'')"
    using c js_includes_first_unit [of scenario_body "of_char CHR ''c''" "str ''loudflare''"]
    by (auto simp: str_def)
  show "\<not> js_includes scenario_body (str ''just a moment'')"
    using j js_includes_first_unit [of scenario_body "of_char CHR ''j''" "str ''ust a moment''"]
    by (auto simp: str_def)
  show "\<not> js_includes scenario_body (str ''cf-browser-verification'')"
    using c
      js_includes_first_unit [of scenario_body "of_char CHR ''c''" "str ''f-browser-verification''"]
    by (auto simp: str_def)
qed

lemma padded_units: "padded_body = 32 # scenario_body"
  by (simp add: padded_body_def scenario_units str_def)

lemma padded_lower: "toLowerCase uc padded_body = padded_body"
proof -
  have "\<forall>u \<in> set padded_body. u < 0x80" by (simp add: padded_units scenario_units)
  then have "toLowerCase uc padded_body = map lowerAscii padded_body"
    by (rule toLowerCase_ascii)
  also have "\<dots> = padded_body"
    by (simp add: padded_units scenario_units lowerAscii_def isAsciiUpper_def)
  finally show ?thesis .
qed

lemma padded_trim: "trim padded_body = scenario_body"
  by (simp add: padded_units scenario_units trim_def isWhiteSpace_def)

lemma padded_no_prefix:
  "\<not> startsWith padded_body (str ''<?xml'')"
  "\<not> startsWith padded_body (str ''<feed'')"
  "\<not> startsWith padded_body (str ''<rss'')"
  by (simp_all add: padded_units startsWith_def str_def)

lemma feed_naming_cloudflare_lower:
  "toLowerCase uc feed_naming_cloudflare = str ''<rss>'' @ str ''cloudflare'' @ str ''</rss>''"
proof -
  have "\<forall>u \<in> set feed_naming_cloudflare. u < 0x80"
    by (simp add: feed_naming_cloudflare_def str_def)
  then have "toLowerCase uc feed_naming_cloudflare = map lowerAscii feed_naming_cloudflare"
    by (rule toLowerCase_ascii)
  also have "\<dots> = str ''<rss>'' @ str ''cloudflare'' @ str ''</rss>''"
    by (simp add: feed_naming_cloudflare_def str_def lowerAscii_def isAsciiUpper_def)
  finally show ?thesis .
qed

lemma feed_naming_cloudflare_starts:
  "startsWith (str ''<rss>'' @ str ''cloudflare'' @ str ''</rss>'') (str ''<rss'')"
  by (simp add: startsWith_def str_def)

lemma mode_literals: "str ''native'' \<noteq> str ''api''"
  by (simp add: str_def)

lemma envelope_keys:
  "str ''data'' \<noteq> str ''body''" "str ''content'' \<noteq> str ''body''"
  "str ''content'' \<noteq> str ''data''" "str ''body'' \<noteq> str ''data''"
  by (simp_all add: str_def)

section \<open>The handlers after a completed fetch\<close>

text \<open>
  When the parameters pass the checks and \<^verbatim>\<open>fetchContent\<close> returns, the answer of
  \<^verbatim>\<open>/fetch\<close> is \<open>fetch_respond\<close> and the \<^verbatim>\<open>result\<close> of \<^verbatim>\<open>/test\<close> is \<open>classify\<close>.
\<close>

lemma fetch_handler_fetched:
  assumes "js_or (numFalsy rt) (get_prop (req_query req) (str ''url''))
             (body_prop_opt req (str ''url'')) = Some u"
    and "truthy (numFalsy rt) u" and "URL_parses rt u"
    and "js_or (numFalsy rt) (get_prop (req_query req) (str ''mode''))
           (js_or (numFalsy rt) (body_prop_opt req (str ''mode'')) (Some (JStr (str ''api''))))
         = Some m"
    and "m = JStr (str ''api'') \<or> m = JStr (str ''native'')"
    and "fetchContent rt apiKey m net env = (env', Inr (cont, st))"
  shows "fetch_handler rt mx apiKey req net env = (env', fetch_respond rt mx cont st)"
  using assms by (auto simp: fetch_handler_def Let_def)

lemma test_handler_fetched:
  assumes "query_body_or rt req (str ''url'') default_url = Inr u" and "URL_parses rt u"
    and "query_body_or rt req (str ''mode'') (str ''api'') = Inr m"
    and "m = JStr (str ''api'') \<or> m = JStr (str ''native'')"
    and "test_full req = Inr full"
    and "truthy (numFalsy rt) u"
    and "fetchContent rt apiKey m net env = (env', Inr (cont, st))"
  shows "test_handler rt mx apiKey req net env
           = (env', Test_Result (statusCode (classify rt mx full cont st)) m u
                      (classify rt mx full cont st))"
  using assms by (auto simp: test_handler_def Let_def)

section \<open>Properties of the preview\<close>

lemma substring_from_0: "substring s (Fin 0) (Fin (int n)) = take n s"
  by (simp add: substring_def min_def max_def)

text \<open>
  Claim C9. For every body the \<^verbatim>\<open>contentPreview\<close> of the diagnostics is the first
  500 code units of the body, so its length is \<open>min 500 (length body)\<close>; the unit is
  the UTF-16 code unit, the element type of \<open>jsstring\<close>.
\<close>

theorem C9_preview_first_500:
  "contentPreview (classify rt mx full body st) = take 500 body
   \<and> length (contentPreview (classify rt mx full body st)) = min 500 (length body)"
proof -
  have "substring body (Fin 0) (Fin 500) = take 500 body"
    using substring_from_0 [of body 500] by simp
  then show ?thesis
    by (simp add: classify_def Let_def min.commute)
qed

section \<open>The TLS flag around the outbound call\<close>

lemma fetchContent_native_returns:
  "fst (fetchContent rt apiKey (JStr (str ''native'')) (Resolves st d) env) = env"
  by (simp add: fetchContent_def mode_literals Let_def split: option.splits)

text \<open>
  Claim C1. The claim says that in native mode \<^verbatim>\<open>NODE_TLS_REJECT_UNAUTHORIZED\<close> has
  its prior value again after the call on every path, also when the call throws.
  The code restores it only after a call that returned: when the call rejects,
  \<^verbatim>\<open>fetchContent\<close> of the server and \<^verbatim>\<open>testUnlockerNative\<close> of the script both leave
  the variable at \<open>"0"\<close>, whatever it was before, and in particular when it was not
  set. After a call that returned it is the prior value.
\<close>

theorem C1_tls_flag_stays_relaxed_on_throw:
  "fst (fetchContent rt apiKey (JStr (str ''native'')) (Rejects e) None) = Some (str ''0'')
   \<and> testUnlockerNative_env (Rejects e) None = Some (str ''0'')
   \<and> fst (fetchContent rt apiKey (JStr (str ''native'')) (Rejects e) env) = Some (str ''0'')
   \<and> testUnlockerNative_env (Rejects e) env = Some (str ''0'')
   \<and> testUnlockerNative_env (Resolves st d) env = env"
  by (simp add: fetchContent_def testUnlockerNative_env_def mode_literals Let_def
      split: option.splits)

section \<open>The feed prefix test\<close>

text \<open>
  Claim C2. The claim says that \<^verbatim>\<open>/test\<close> compares the prefixes after trimming.
  It does not: for the scenario feed after one leading space, \<^verbatim>\<open>isXml\<close> is false
  on \<^verbatim>\<open>/test\<close>, while the content type detection of \<^verbatim>\<open>/fetch\<close>, which trims,
  takes the same body for XML.
\<close>

theorem C2_test_compares_without_trim:
  "isXml (classify rt mx full padded_body 200) = False
   \<and> detect_content_type uc padded_body = XML
   \<and> trim padded_body = scenario_body
   \<and> isXml (classify rt mx full scenario_body 200) = True"
  by (simp add: classify_isXml detect_content_type_def padded_lower padded_trim padded_no_prefix
      scenario_lower scenario_starts)

section \<open>Oversized bodies on \<^verbatim>\<open>/fetch\<close>\<close>

text \<open>
  Claim C3, as stated, fails: with the default limit, a body of 6,000,000 units
  that came with the upstream status 404 is longer than the limit, and the answer
  has the status 404, not 413.
\<close>

theorem C3_upstream_error_is_not_413:
  "num_gt (len (replicate 6000000 0x61)) (MAX_FULL_CONTENT_SIZE None)
   \<and> fetch_respond ascii_runtime (MAX_FULL_CONTENT_SIZE None) (replicate 6000000 0x61) 404
       = Fetch_Upstream 404 (replicate 6000000 0x61)
   \<and> fetch_status
        (fetch_respond ascii_runtime (MAX_FULL_CONTENT_SIZE None) (replicate 6000000 0x61) 404)
       \<noteq> 413"
  by (simp add: default_max len_def fetch_respond_def)

text \<open>
  Claim C3, amended. On \<^verbatim>\<open>/fetch\<close>, for every fetched body that is longer than the
  configured maximum: when the upstream status is below 400 the answer is the 413
  JSON error with \<^verbatim>\<open>contentLength\<close> and \<^verbatim>\<open>maxAllowed\<close>; when the upstream status
  is 400 or more the answer is that status with the whole body. In neither case is
  a shortened body sent.
\<close>

theorem C3_oversized_fetch:
  assumes "num_gt (len body) mx"
  shows "(st < 400 \<longrightarrow>
           fetch_respond rt mx body st
             = Fetch_TooLarge (length body) mx (too_large_message (showNum rt) mx)
           \<and> fetch_status (fetch_respond rt mx body st) = 413
           \<and> tl_contentLength (fetch_respond rt mx body st) = length body
           \<and> tl_maxAllowed (fetch_respond rt mx body st) = mx)
       \<and> (st \<ge> 400 \<longrightarrow> fetch_respond rt mx body st = Fetch_Upstream st body)
       \<and> (fetch_sent (fetch_respond rt mx body st) = None
            \<or> fetch_sent (fetch_respond rt mx body st) = Some body)"
  using assms by (simp add: fetch_respond_def)

theorem C3_oversized_fetch_witness:
  "num_gt (len (replicate 6000000 0x61)) (Fin 5242880)
   \<and> fetch_status (fetch_respond ascii_runtime (Fin 5242880) (replicate 6000000 0x61) 200) = 413
   \<and> tl_contentLength (fetch_respond ascii_runtime (Fin 5242880) (replicate 6000000 0x61) 200)
       = 6000000
   \<and> tl_maxAllowed (fetch_respond ascii_runtime (Fin 5242880) (replicate 6000000 0x61) 200)
       = Fin 5242880
   \<and> fetch_respond ascii_runtime (Fin 5242880) (replicate 6000000 0x61) 503
       = Fetch_Upstream 503 (replicate 6000000 0x61)"
proof -
  have h: "num_gt (len (replicate 6000000 (0x61 :: unit16))) (Fin 5242880)"
    by (simp add: len_def)
  show ?thesis
    using h C3_oversized_fetch [OF h, of 200 ascii_runtime]
      C3_oversized_fetch [OF h, of 503 ascii_runtime]
    by simp
qed

section \<open>The challenge scan\<close>

text \<open>
  Claim C4, as stated, fails on the command line script, one of the two places
  it is taken from: a feed that mentions the challenge text contains
  \<open>cloudflare\<close> once lower-cased, and the script prints the feed line only, because
  its scan is the \<^verbatim>\<open>else if\<close> of the prefix test.
\<close>

theorem C4_script_scan_depends_on_prefix:
  "js_includes (toLowerCase keepNonAscii feed_naming_cloudflare) (str ''cloudflare'')
   \<and> cli_verdict keepNonAscii feed_naming_cloudflare = Some Looks_like_feed
   \<and> cli_verdict keepNonAscii feed_naming_cloudflare \<noteq> Some Challenge_present"
proof -
  have "js_includes (str ''<rss>'' @ str ''cloudflare'' @ str ''</rss>'') (str ''cloudflare'')"
    by (rule js_includes_append)
  then show ?thesis
    by (simp add: cli_verdict_def Let_def feed_naming_cloudflare_lower
        feed_naming_cloudflare_starts)
qed

text \<open>
  Claim C4, amended. For every body that contains \<open>cloudflare\<close>, \<open>just a moment\<close> or
  \<open>cf-browser-verification\<close> anywhere, in any mix of ASCII upper and lower case,
  the diagnostics of \<^verbatim>\<open>/test\<close> have \<^verbatim>\<open>hasCloudflareChallenge\<close> true, whatever
  \<^verbatim>\<open>isXml\<close> is. The command line script prints its challenge line for such a body
  exactly when the body does not start with a feed prefix.
\<close>

theorem C4_challenge_scan:
  assumes "map lowerAscii mid = str ''cloudflare'' \<or> map lowerAscii mid = str ''just a moment''
           \<or> map lowerAscii mid = str ''cf-browser-verification''"
  shows "hasCloudflareChallenge (classify rt mx full (pre @ mid @ post) st)
         \<and> cli_verdict (lowerNonAscii rt) (pre @ mid @ post)
             = (if isXml (classify rt mx full (pre @ mid @ post) st) then Some Looks_like_feed
                else Some Challenge_present)"
proof -
  let ?lower = "toLowerCase (lowerNonAscii rt) (pre @ mid @ post)"
  have "js_includes ?lower (str ''cloudflare'')
        \<or> js_includes ?lower (str ''just a moment'')
        \<or> js_includes ?lower (str ''cf-browser-verification'')"
    using assms by (rule challenge_scan_matches)
  then show ?thesis
    by (simp add: classify_blocked classify_isXml cli_verdict_def Let_def)
qed

theorem C4_challenge_scan_witness:
  "map lowerAscii (str ''CloudFlare'') = str ''cloudflare''
   \<and> isXml (classify ascii_runtime (Fin 5242880) False feed_naming_cloudflare 200)
   \<and> hasCloudflareChallenge (classify ascii_runtime (Fin 5242880) False feed_naming_cloudflare 200)
   \<and> cli_verdict keepNonAscii feed_naming_cloudflare = Some Looks_like_feed"
proof -
  have h: "map lowerAscii (str ''CloudFlare'') = str ''cloudflare''"
    by (simp add: str_def lowerAscii_def isAsciiUpper_def)
  have x: "isXml (classify ascii_runtime (Fin 5242880) False feed_naming_cloudflare 200)"
    by (simp add: classify_isXml feed_naming_cloudflare_lower feed_naming_cloudflare_starts)
  have l: "lowerNonAscii ascii_runtime = keepNonAscii"
    by (simp add: ascii_runtime_def)
  show ?thesis
    using h x l
      C4_challenge_scan [of "str ''CloudFlare''" ascii_runtime "Fin 5242880" False "str ''<rss>''"
        "str ''</rss>''" 200]
    by (simp add: feed_naming_cloudflare_def)
qed

section \<open>Unwrapping the relay envelope\<close>

lemma unwrap_first_truthy:
  "is_object d \<Longrightarrow> unwrap rt d = first_usable (truthy (numFalsy rt)) rt d"
  by (simp add: unwrap_def first_usable_def truthy_prop_def List.map_filter_simps
      split: option.splits)

text \<open>
  Claim C5, as stated, fails: in the envelope \<^verbatim>\<open>{"body": "", "data": "x"}\<close> the
  first property that is present is \<^verbatim>\<open>body\<close>, with the empty text, and the text
  that \<^verbatim>\<open>fetchContent\<close> returns is \<open>x\<close>, the value of \<^verbatim>\<open>data\<close>.
\<close>

theorem C5_present_empty_body_is_skipped:
  "get_prop envelope_empty_body (str ''body'') = Some (JStr [])
   \<and> fetchContent ascii_runtime (str ''key'') (JStr (str ''api''))
         (Resolves 200 envelope_empty_body) None
       = (None, Inr (str ''x'', 200))
   \<and> fetchContent ascii_runtime (str ''key'') (JStr (str ''api''))
         (Resolves 200 envelope_empty_body) None
       \<noteq> (None, Inr (String_js ascii_runtime
                        (first_usable (\<lambda>v. True) ascii_runtime envelope_empty_body), 200))"
proof -
  have k: "str ''key'' \<noteq> []" and x: "str ''x'' \<noteq> []"
    by (simp_all add: str_def)
  show ?thesis
    using k x
    by (simp add: fetchContent_def unwrap_def truthy_prop_def is_object_def
        envelope_empty_body_def first_usable_def List.map_filter_simps String_js_def
        envelope_keys ascii_runtime_def)
qed

text \<open>
  Claim C5, amended. In api mode, when the upstream body is a JSON object (or
  array) and not a string, the effective text is \<^verbatim>\<open>String\<close> of the first of the
  properties \<^verbatim>\<open>body\<close>, \<^verbatim>\<open>data\<close>, \<^verbatim>\<open>content\<close>, in that order, whose value is truthy;
  a property that is absent or holds an empty string, zero, \<^verbatim>\<open>false\<close> or \<^verbatim>\<open>null\<close>
  is passed over. When none of the three is truthy the whole object is
  JSON-stringified.
\<close>

theorem C5_first_truthy_property:
  assumes "is_object d" and "apiKey \<noteq> []"
  shows "fetchContent rt apiKey (JStr (str ''api'')) (Resolves st d) env
           = (env, Inr (String_js rt (first_usable (truthy (numFalsy rt)) rt d), st))"
  using assms by (simp add: fetchContent_def unwrap_first_truthy)

theorem C5_first_truthy_property_witness:
  "is_object envelope_empty_body \<and> str ''key'' \<noteq> []
   \<and> first_usable (truthy (numFalsy ascii_runtime)) ascii_runtime envelope_empty_body
       = JStr (str ''x'')
   \<and> fetchContent ascii_runtime (str ''key'') (JStr (str ''api''))
         (Resolves 200 envelope_empty_body) None
       = (None, Inr (str ''x'', 200))"
proof -
  have o: "is_object envelope_empty_body"
    by (simp add: is_object_def envelope_empty_body_def)
  have k: "str ''key'' \<noteq> []" and x: "str ''x'' \<noteq> []"
    by (simp_all add: str_def)
  have f: "first_usable (truthy (numFalsy ascii_runtime)) ascii_runtime envelope_empty_body
             = JStr (str ''x'')"
    using x by (simp add: first_usable_def List.map_filter_simps envelope_empty_body_def
        envelope_keys)
  show ?thesis
    using o k f C5_first_truthy_property [OF o k, of ascii_runtime 200 None]
    by (simp add: String_js_def)
qed

section \<open>The scenario feed\<close>

text \<open>
  Claim C6, as stated, fails in its last number: the body of the scenario has 32
  code units, so \<^verbatim>\<open>contentLength\<close> is not 33.
\<close>

theorem C6_contentLength_is_not_33:
  "contentLength (classify ascii_runtime (MAX_FULL_CONTENT_SIZE None) False scenario_body 200)
     \<noteq> 33"
  by (simp add: classify_contentLength scenario_units)

text \<open>
  Claim C6, amended. Classifying the body \<^verbatim>\<open><?xml version="1.0"?><rss></rss>\<close> with
  status 200 gives \<^verbatim>\<open>success\<close> true, \<^verbatim>\<open>isXml\<close> true, \<^verbatim>\<open>hasCloudflareChallenge\<close>
  false and \<^verbatim>\<open>contentLength\<close> 32.
\<close>

theorem C6_scenario_classification:
  "success (classify rt mx full scenario_body 200)
   \<and> isXml (classify rt mx full scenario_body 200)
   \<and> \<not> hasCloudflareChallenge (classify rt mx full scenario_body 200)
   \<and> contentLength (classify rt mx full scenario_body 200) = 32"
proof -
  have "length scenario_body = 32" by (simp add: scenario_units)
  then show ?thesis
    by (simp add: classify_success classify_isXml classify_blocked classify_contentLength
        scenario_lower scenario_not_blocked scenario_starts)
qed

section \<open>Full content on \<^verbatim>\<open>/test\<close>\<close>

lemma classify_full_exceeded:
  assumes "num_gt (len body) mx"
  shows "content (classify rt mx True body st)
           = Some (take (case mx of Fin k \<Rightarrow> nat k | _ \<Rightarrow> 0) body)"
    and "contentTruncated (classify rt mx True body st) = Some True"
    and "maxContentSize (classify rt mx True body st) = Some mx"
    and "message (classify rt mx True body st) = Some (truncated_message (showNum rt) mx)"
  using num_gt_not_le [OF assms] substring_0_exceeded [OF assms]
  by (simp_all add: classify_def Let_def)

lemma classify_full_within:
  assumes "num_le (len body) mx"
  shows "content (classify rt mx True body st) = Some body"
    and "contentTruncated (classify rt mx True body st) = None"
    and "maxContentSize (classify rt mx True body st) = None"
    and "message (classify rt mx True body st) = None"
  using assms by (simp_all add: classify_def Let_def initial_result_def)

text \<open>
  Claim C7. With full content requested on \<^verbatim>\<open>/test\<close>, for every limit, body and
  status: a body whose length exceeds the limit is attached as its first
  limit-many units (none when the limit is negative), with \<^verbatim>\<open>contentTruncated\<close>
  true, the limit as \<^verbatim>\<open>maxContentSize\<close>, and as \<^verbatim>\<open>message\<close> the advisory of line
  263, \<open>Content truncated at\<close> the limit \<open>bytes. Use /fetch for raw content (up to\<close>
  the limit \<open>bytes).\<close>, which is never empty; a body whose length is at most the
  limit is attached as it is, with no truncation flag, no \<^verbatim>\<open>maxContentSize\<close> and
  no message. For an integer limit \<open>m\<close>, exceeding is \<open>length body > m\<close>, the
  attached text is \<open>take m body\<close>, and it has exactly \<open>m\<close> units when \<open>m\<close> is not
  negative.
\<close>

theorem C7_full_content:
  "(num_gt (len body) mx \<longrightarrow>
      content (classify rt mx True body st)
        = Some (take (case mx of Fin k \<Rightarrow> nat k | _ \<Rightarrow> 0) body)
      \<and> contentTruncated (classify rt mx True body st) = Some True
      \<and> maxContentSize (classify rt mx True body st) = Some mx
      \<and> message (classify rt mx True body st)
          = Some (str ''Content truncated at '' @ showNum rt mx
                  @ str '' bytes. Use /fetch for raw content (up to '' @ showNum rt mx
                  @ str '' bytes).'')
      \<and> message (classify rt mx True body st) \<noteq> Some [])
   \<and> (num_le (len body) mx \<longrightarrow>
      content (classify rt mx True body st) = Some body
      \<and> contentTruncated (classify rt mx True body st) = None
      \<and> maxContentSize (classify rt mx True body st) = None
      \<and> message (classify rt mx True body st) = None)
   \<and> (int (length body) > m \<longrightarrow>
      content (classify rt (Fin m) True body st) = Some (take (nat m) body)
      \<and> (0 \<le> m \<longrightarrow> length (take (nat m) body) = nat m)
      \<and> contentTruncated (classify rt (Fin m) True body st) = Some True
      \<and> maxContentSize (classify rt (Fin m) True body st) = Some (Fin m)
      \<and> message (classify rt (Fin m) True body st)
          = Some (str ''Content truncated at '' @ showNum rt (Fin m)
                  @ str '' bytes. Use /fetch for raw content (up to '' @ showNum rt (Fin m)
                  @ str '' bytes).''))
   \<and> (int (length body) \<le> m \<longrightarrow>
      content (classify rt (Fin m) True body st) = Some body
      \<and> contentTruncated (classify rt (Fin m) True body st) = None
      \<and> message (classify rt (Fin m) True body st) = None)"
proof -
  have text_of: "truncated_message (showNum rt) n
      = str ''Content truncated at '' @ showNum rt n
        @ str '' bytes. Use /fetch for raw content (up to '' @ showNum rt n
        @ str '' bytes).''" for n
    by (simp add: truncated_message_def)
  have exceeded: "num_gt (len body) (Fin m)" if "int (length body) > m"
    using that by (simp add: len_def)
  have within: "num_le (len body) (Fin m)" if "int (length body) \<le> m"
    using that by (simp add: len_def)
  have general_exceeded:
    "content (classify rt n True body st)
        = Some (take (case n of Fin k \<Rightarrow> nat k | _ \<Rightarrow> 0) body)
      \<and> contentTruncated (classify rt n True body st) = Some True
      \<and> maxContentSize (classify rt n True body st) = Some n
      \<and> message (classify rt n True body st)
          = Some (str ''Content truncated at '' @ showNum rt n
                  @ str '' bytes. Use /fetch for raw content (up to '' @ showNum rt n
                  @ str '' bytes).'')
      \<and> message (classify rt n True body st) \<noteq> Some []" if "num_gt (len body) n" for n
    using classify_full_exceeded [OF that, of rt st] text_of [of n]
      truncated_message_nonempty [of "showNum rt" n]
    by simp
  have general_within:
    "content (classify rt n True body st) = Some body
      \<and> contentTruncated (classify rt n True body st) = None
      \<and> maxContentSize (classify rt n True body st) = None
      \<and> message (classify rt n True body st) = None" if "num_le (len body) n" for n
    using classify_full_within [OF that, of rt st] by simp
  have units: "length (take (nat m) body) = nat m" if "int (length body) > m" and "0 \<le> m"
    using that by simp
  have fin_content: "content (classify rt (Fin m) True body st) = Some (take (nat m) body)"
    if "int (length body) > m"
    using classify_full_exceeded(1) [OF exceeded [OF that], of rt st] by simp
  show ?thesis
    using general_exceeded [of mx] general_within [of mx]
      general_exceeded [OF exceeded] general_within [OF within] units fin_content
    by blast
qed

theorem C7_full_content_witness:
  "num_gt (len scenario_body) (Fin 5)
   \<and> int (length scenario_body) > 5
   \<and> content (classify ascii_runtime (Fin 5) True scenario_body 200) = Some (str ''<?xml'')
   \<and> contentTruncated (classify ascii_runtime (Fin 5) True scenario_body 200) = Some True
   \<and> maxContentSize (classify ascii_runtime (Fin 5) True scenario_body 200) = Some (Fin 5)
   \<and> message (classify ascii_runtime (Fin 5) True scenario_body 200)
       = Some (str ''Content truncated at 5 bytes. Use /fetch for raw content (up to 5 bytes).'')
   \<and> num_le (len scenario_body) (Fin 5242880)
   \<and> int (length scenario_body) \<le> 5242880
   \<and> content (classify ascii_runtime (Fin 5242880) True scenario_body 200) = Some scenario_body
   \<and> contentTruncated (classify ascii_runtime (Fin 5242880) True scenario_body 200) = None
   \<and> message (classify ascii_runtime (Fin 5242880) True scenario_body 200) = None"
proof -
  have l: "length scenario_body = 32" by (simp add: scenario_units)
  have t: "take 5 scenario_body = str ''<?xml''" by (simp add: scenario_units str_def)
  have five: "showNum ascii_runtime (Fin 5) = str ''5''"
    by (simp add: ascii_runtime_def showInteger_def str_def)
  have advisory:
    "str ''Content truncated at '' @ str ''5''
       @ str '' bytes. Use /fetch for raw content (up to '' @ str ''5'' @ str '' bytes).''
     = str ''Content truncated at 5 bytes. Use /fetch for raw content (up to 5 bytes).''"
    by (simp add: str_def)
  have short: "content (classify ascii_runtime (Fin 5) True scenario_body 200) = Some (str ''<?xml'')
      \<and> contentTruncated (classify ascii_runtime (Fin 5) True scenario_body 200) = Some True
      \<and> maxContentSize (classify ascii_runtime (Fin 5) True scenario_body 200) = Some (Fin 5)
      \<and> message (classify ascii_runtime (Fin 5) True scenario_body 200)
          = Some (str ''Content truncated at 5 bytes. Use /fetch for raw content (up to 5 bytes).'')"
    using l t five advisory
      C7_full_content [where body = scenario_body and m = 5 and mx = "Fin 5"
        and rt = ascii_runtime and st = 200]
    by (simp add: len_def)
  have whole: "content (classify ascii_runtime (Fin 5242880) True scenario_body 200)
        = Some scenario_body
      \<and> contentTruncated (classify ascii_runtime (Fin 5242880) True scenario_body 200) = None
      \<and> message (classify ascii_runtime (Fin 5242880) True scenario_body 200) = None"
    using l
      C7_full_content [where body = scenario_body and m = 5242880 and mx = "Fin 5242880"
        and rt = ascii_runtime and st = 200]
    by (simp add: len_def)
  show ?thesis
    using l short whole by (simp add: len_def)
qed

section \<open>The two surfaces send the same content\<close>

text \<open>
  Claim C8. For the same fetched body and status, whenever the length of the body
  is at most the limit, the text that \<^verbatim>\<open>/fetch\<close> sends and the \<^verbatim>\<open>content\<close> of
  \<^verbatim>\<open>/test\<close> with full content requested are both the body itself.
\<close>

theorem C8_fetch_and_test_agree:
  assumes "num_le (len body) mx"
  shows "fetch_sent (fetch_respond rt mx body st) = Some body
         \<and> content (classify rt mx True body st) = Some body
         \<and> fetch_sent (fetch_respond rt mx body st) = content (classify rt mx True body st)"
  using assms num_le_not_gt [OF assms] by (simp add: fetch_respond_def classify_def Let_def)

theorem C8_fetch_and_test_agree_witness:
  "num_le (len scenario_body) (MAX_FULL_CONTENT_SIZE None)
   \<and> fetch_sent (fetch_respond ascii_runtime (MAX_FULL_CONTENT_SIZE None) scenario_body 200)
       = Some scenario_body
   \<and> content (classify ascii_runtime (MAX_FULL_CONTENT_SIZE None) True scenario_body 200)
       = Some scenario_body"
proof -
  have h: "num_le (len scenario_body) (MAX_FULL_CONTENT_SIZE None)"
    by (simp add: default_max len_def scenario_units)
  show ?thesis
    using h C8_fetch_and_test_agree [OF h, of ascii_runtime 200] by simp
qed

section \<open>The missing-url guard of \<^verbatim>\<open>/test\<close>\<close>

lemma query_body_or_truthy:
  assumes "query_body_or rt req k dflt = Inr u" and "dflt \<noteq> []"
  shows "truthy (numFalsy rt) u"
  using assms
  by (auto simp: query_body_or_def Let_def split: option.splits sum.splits if_splits)

lemma default_url_nonempty: "default_url \<noteq> []"
  by (simp add: default_url_def str_def)

text \<open>
  Claim C10. On \<^verbatim>\<open>/test\<close> the answer is never the 400 ``Missing URL parameter'':
  whatever the query and the body hold, the value that line 180 gives to \<^verbatim>\<open>url\<close>
  is truthy, because the last operand of the \<^verbatim>\<open>||\<close> chain is a non-empty text,
  so the guard of line 184 lets every request through.
\<close>

theorem C10_missing_url_unreachable:
  "snd (test_handler rt mx apiKey req net env) \<noteq> Test_MissingUrl
   \<and> (query_body_or rt req (str ''url'') default_url = Inr u \<longrightarrow> truthy (numFalsy rt) u)"
proof -
  have t: "truthy (numFalsy rt) v"
    if "query_body_or rt req (str ''url'') default_url = Inr v" for v
    using that default_url_nonempty by (rule query_body_or_truthy)
  have "snd (test_handler rt mx apiKey req net env) \<noteq> Test_MissingUrl"
    using t by (auto simp: test_handler_def Let_def split: sum.splits prod.splits)
  with t show ?thesis by blast
qed

theorem C10_missing_url_unreachable_witness:
  "query_body_or ascii_runtime bare_request (str ''url'') default_url = Inr (JStr default_url)
   \<and> truthy (numFalsy ascii_runtime) (JStr default_url)
   \<and> snd (test_handler ascii_runtime (Fin 5242880) (str ''key'') bare_request
             (Resolves 200 (JStr scenario_body)) None) \<noteq> Test_MissingUrl"
proof -
  have q: "query_body_or ascii_runtime bare_request (str ''url'') default_url
             = Inr (JStr default_url)"
    by (simp add: query_body_or_def body_prop_def bare_request_def Let_def)
  show ?thesis
    using q
      C10_missing_url_unreachable [of ascii_runtime "Fin 5242880" "str ''key''" bare_request
        "Resolves 200 (JStr scenario_body)" None "JStr default_url"]
    by simp
qed

end
